theory Spec2Isabelle
  imports Main "HOL-Library.Sublist"
begin

section \<open>Values, exceptions and the outside world\<close>

text \<open>
  The program \<^verbatim>\<open>sw.py\<close> keeps a keyring (a JSON object from labels to addresses) in
  \<^verbatim>\<open>~/.sw/keyring.json\<close>. Every Python value that flows through it is either a
  command-line string or something \<^verbatim>\<open>json.loads\<close> returned, so one datatype of JSON
  values models them all; \<open>JNull\<close> is Python's \<^verbatim>\<open>None\<close> and \<open>JObj\<close> is a \<^verbatim>\<open>dict\<close>
  in insertion order. JSON numbers with a fraction or an exponent (Python floats) are
  left out.
\<close>

datatype json =
    JNull
  | JBool bool
  | JInt int
  | JStr string
  | JArr "json list"
  | JObj "(string \<times> json) list"

text \<open>The reasons for a \<^verbatim>\<open>TypeError\<close> that the program can meet.\<close>

datatype type_error =
    Missing_arguments "string list"
  | Multiple_values string
  | Unexpected_keyword string
  | Too_many_positional
  | Not_iterable
  | Not_subscriptable
  | No_item_assignment
  | Bad_index
  | Not_a_mapping

text \<open>
  Exceptions are values. \<open>Unmodelled\<close> marks the places where a label would not be a
  string: every label comes from the command line, so these places are never reached
  from \<open>main\<close>.
\<close>

datatype exn =
    TypeError type_error
  | KeyError string
  | AttributeError
  | IndexError
  | FileNotFoundError
  | PermissionError
  | IsADirectoryError
  | OSError
  | UnicodeDecodeError
  | JSONDecodeError
  | RecursionError
  | ValueError
  | SystemExit
  | Unmodelled

text \<open>
  A file is described by what the three calls \<^verbatim>\<open>open(p, 'r', encoding='utf-8')\<close>,
  \<^verbatim>\<open>f.read()\<close> and \<^verbatim>\<open>json.loads\<close> do with it:
  \<^item> \<open>Absent\<close>: \<^verbatim>\<open>open\<close> raises \<^verbatim>\<open>FileNotFoundError\<close>;
  \<^item> \<open>Malformed\<close>: the text is read and \<^verbatim>\<open>json.loads\<close> raises \<^verbatim>\<open>JSONDecodeError\<close>;
  \<^item> \<open>Holds v\<close>: the text is read and \<^verbatim>\<open>json.loads\<close> returns \<open>v\<close>;
  \<^item> \<open>Unreadable e\<close>: one of the three calls raises the exception \<open>e\<close>. So does
    \<^verbatim>\<open>open\<close> on a file that may not be read (\<^verbatim>\<open>PermissionError\<close>) or on a directory
    (\<^verbatim>\<open>IsADirectoryError\<close>), \<^verbatim>\<open>f.read()\<close> on bytes that are not UTF-8
    (\<^verbatim>\<open>UnicodeDecodeError\<close>), and \<^verbatim>\<open>json.loads\<close> on a valid JSON document that is
    nested too deeply (\<^verbatim>\<open>RecursionError\<close>) or has an integer of more digits than the
    interpreter converts (\<^verbatim>\<open>ValueError\<close>).

  The JSON codec itself is the library's: a file written with \<^verbatim>\<open>json.dumps(v)\<close> is a
  file that \<open>Holds v\<close>. The program only writes values it has loaded, with strings
  from the command line put in, so \<^verbatim>\<open>json.dumps\<close> meets none of these limits.
\<close>

datatype disk_file = Absent | Malformed | Holds json | Unreadable exn

text \<open>
  Output is kept as the pieces the program puts together: literal text, \<^verbatim>\<open>str(v)\<close> of a
  value (what \<^verbatim>\<open>'{0}'.format(v)\<close> inserts) and \<^verbatim>\<open>json.dumps(v)\<close>.
\<close>

datatype piece = Lit string | Str json | Dumps json

datatype event = Print "piece list" | Shell "piece list"

record world =
  data_dir :: string
  keyring_file :: disk_file
  writable :: bool
  write_error :: exn
  other_files :: "string \<Rightarrow> disk_file"
  out :: "event list"

type_synonym 'a comp = "world \<Rightarrow> (exn + 'a) \<times> world"
type_synonym kwargs = "(string \<times> json) list"
type_synonym pyfun = "json list \<Rightarrow> kwargs \<Rightarrow> json comp"

definition emit :: "event \<Rightarrow> world \<Rightarrow> world" where
  "emit e w = w\<lparr>out := out w @ [e]\<rparr>"

subsection \<open>The text of a printed line\<close>

definition digit_char :: "nat \<Rightarrow> char" where
  "digit_char n = char_of (48 + n)"

function show_nat :: "nat \<Rightarrow> string" where
  "show_nat n = (if n < 10 then [digit_char n] else show_nat (n div 10) @ [digit_char (n mod 10)])"
  by pat_completeness auto
termination
  by (relation "measure id") auto

definition show_int :: "int \<Rightarrow> string" where
  "show_int i = (if i < 0 then CHR ''-'' # show_nat (nat (- i)) else show_nat (nat i))"

text \<open>
  \<open>piece_text\<close> is \<open>None\<close> where the text depends on Python's \<^verbatim>\<open>repr\<close> of a container or
  on the JSON encoder, which are not modelled.
\<close>

fun piece_text :: "piece \<Rightarrow> string option" where
  "piece_text (Lit s) = Some s"
| "piece_text (Str JNull) = Some ''None''"
| "piece_text (Str (JBool b)) = Some (if b then ''True'' else ''False'')"
| "piece_text (Str (JInt i)) = Some (show_int i)"
| "piece_text (Str (JStr s)) = Some s"
| "piece_text (Str (JArr xs)) = None"
| "piece_text (Str (JObj kvs)) = None"
| "piece_text (Dumps v) = None"

fun render :: "piece list \<Rightarrow> string option" where
  "render [] = Some []"
| "render (p # ps) =
     (case piece_text p of
        None \<Rightarrow> None
      | Some s \<Rightarrow> (case render ps of None \<Rightarrow> None | Some t \<Rightarrow> Some (s @ t)))"

fun printed :: "event list \<Rightarrow> string option list" where
  "printed [] = []"
| "printed (Print ps # es) = render ps # printed es"
| "printed (Shell ps # es) = printed es"

section \<open>Operations of Python on the keyring\<close>

definition is_substring :: "string \<Rightarrow> string \<Rightarrow> bool" where
  "is_substring s t = list_ex (prefix s) (suffixes t)"

text \<open>\<^verbatim>\<open>label in keyring\<close>\<close>

fun py_contains :: "json \<Rightarrow> string \<Rightarrow> exn + bool" where
  "py_contains (JObj kvs) s = Inr (s \<in> set (map fst kvs))"
| "py_contains (JArr xs) s = Inr (JStr s \<in> set xs)"
| "py_contains (JStr t) s = Inr (is_substring s t)"
| "py_contains JNull s = Inl (TypeError Not_iterable)"
| "py_contains (JBool b) s = Inl (TypeError Not_iterable)"
| "py_contains (JInt i) s = Inl (TypeError Not_iterable)"

text \<open>\<^verbatim>\<open>keyring[label]\<close>\<close>

fun py_getitem :: "json \<Rightarrow> string \<Rightarrow> exn + json" where
  "py_getitem (JObj kvs) s = (case map_of kvs s of None \<Rightarrow> Inl (KeyError s) | Some v \<Rightarrow> Inr v)"
| "py_getitem (JArr xs) s = Inl (TypeError Bad_index)"
| "py_getitem (JStr t) s = Inl (TypeError Bad_index)"
| "py_getitem JNull s = Inl (TypeError Not_subscriptable)"
| "py_getitem (JBool b) s = Inl (TypeError Not_subscriptable)"
| "py_getitem (JInt i) s = Inl (TypeError Not_subscriptable)"

text \<open>A dict keeps the position of a key that is assigned again and appends a new one.\<close>

fun dict_set :: "('k \<times> 'v) list \<Rightarrow> 'k \<Rightarrow> 'v \<Rightarrow> ('k \<times> 'v) list" where
  "dict_set [] k v = [(k, v)]"
| "dict_set (p # ps) k v = (if fst p = k then (k, v) # ps else p # dict_set ps k v)"

text \<open>\<^verbatim>\<open>keyring[label] = addr\<close>\<close>

fun py_setitem :: "json \<Rightarrow> string \<Rightarrow> json \<Rightarrow> exn + json" where
  "py_setitem (JObj kvs) s v = Inr (JObj (dict_set kvs s v))"
| "py_setitem (JArr xs) s v = Inl (TypeError Bad_index)"
| "py_setitem (JStr t) s v = Inl (TypeError No_item_assignment)"
| "py_setitem JNull s v = Inl (TypeError No_item_assignment)"
| "py_setitem (JBool b) s v = Inl (TypeError No_item_assignment)"
| "py_setitem (JInt i) s v = Inl (TypeError No_item_assignment)"

text \<open>\<^verbatim>\<open>keyring.pop(label)\<close>, for the keyring it leaves.\<close>

fun py_pop :: "json \<Rightarrow> string \<Rightarrow> exn + json" where
  "py_pop (JObj kvs) s =
     (if s \<in> set (map fst kvs) then Inr (JObj (filter (\<lambda>p. fst p \<noteq> s) kvs))
      else Inl (KeyError s))"
| "py_pop (JArr xs) s = Inl (TypeError Bad_index)"
| "py_pop (JStr t) s = Inl AttributeError"
| "py_pop JNull s = Inl AttributeError"
| "py_pop (JBool b) s = Inl AttributeError"
| "py_pop (JInt i) s = Inl AttributeError"

text \<open>\<^verbatim>\<open>keyring.items()\<close>\<close>

fun py_items :: "json \<Rightarrow> exn + (string \<times> json) list" where
  "py_items (JObj kvs) = Inr kvs"
| "py_items v = Inl AttributeError"

text \<open>\<^verbatim>\<open>{**keyring, **new_keys}\<close>\<close>

fun dict_merge :: "('k \<times> 'v) list \<Rightarrow> ('k \<times> 'v) list \<Rightarrow> ('k \<times> 'v) list" where
  "dict_merge kvs [] = kvs"
| "dict_merge kvs (p # ps) = dict_merge (dict_set kvs (fst p) (snd p)) ps"

fun py_merge :: "json \<Rightarrow> json \<Rightarrow> exn + json" where
  "py_merge (JObj kvs) (JObj news) = Inr (JObj (dict_merge kvs news))"
| "py_merge a b = Inl (TypeError Not_a_mapping)"

text \<open>The truth value of a value, as \<^verbatim>\<open>not v\<close> tests it.\<close>

fun py_truthy :: "json \<Rightarrow> bool" where
  "py_truthy JNull = False"
| "py_truthy (JBool b) = b"
| "py_truthy (JInt i) = (i \<noteq> 0)"
| "py_truthy (JStr s) = (s \<noteq> [])"
| "py_truthy (JArr xs) = (xs \<noteq> [])"
| "py_truthy (JObj kvs) = (kvs \<noteq> [])"

section \<open>Binding the arguments of a call\<close>

text \<open>
  A function \<^verbatim>\<open>def f(p1, ..., pn)\<close> called with positional and keyword arguments:
  the positional arguments fill the first parameters, each keyword must name a
  parameter that is still empty, no positional argument may be left over and no
  parameter may stay empty. The checks are in the interpreter's order.
\<close>

fun bind_keywords ::
  "(string \<times> json option) list \<Rightarrow> kwargs \<Rightarrow> type_error + (string \<times> json option) list" where
  "bind_keywords slots [] = Inr slots"
| "bind_keywords slots (kv # kws) =
     (case map_of slots (fst kv) of
        None \<Rightarrow> Inl (Unexpected_keyword (fst kv))
      | Some (Some u) \<Rightarrow> Inl (Multiple_values (fst kv))
      | Some None \<Rightarrow> bind_keywords (dict_set slots (fst kv) (Some (snd kv))) kws)"

definition bind_params :: "string list \<Rightarrow> json list \<Rightarrow> kwargs \<Rightarrow> exn + json list" where
  "bind_params params args kwargs =
     (case bind_keywords
             (zip params (map Some (take (length params) args)
                          @ replicate (length params - length args) None)) kwargs of
        Inl e \<Rightarrow> Inl (TypeError e)
      | Inr slots \<Rightarrow>
          if length params < length args then Inl (TypeError Too_many_positional)
          else (case filter (\<lambda>p. snd p = None) slots of
                  [] \<Rightarrow> Inr (map (the \<circ> snd) slots)
                | m # ms \<Rightarrow> Inl (TypeError (Missing_arguments (map fst (m # ms))))))"

section \<open>The keyring store\<close>

text \<open>
  \<^verbatim>\<open>save_keyring\<close>: the file is opened for writing and then holds the JSON document of
  the value. When the file cannot be written (\<open>writable\<close> is false), \<^verbatim>\<open>open\<close> raises
  the exception \<open>write_error\<close> of the world: \<^verbatim>\<open>PermissionError\<close>, or
  \<^verbatim>\<open>FileNotFoundError\<close> when the data directory could not be made.
\<close>

definition save_keyring :: "json \<Rightarrow> json comp" where
  "save_keyring keyring w =
     (if writable w then (Inr keyring, w\<lparr>keyring_file := Holds keyring\<rparr>)
      else (Inl (write_error w), w))"

text \<open>\<^verbatim>\<open>with open(p, 'r', encoding='utf-8') as f: json.loads(f.read())\<close>\<close>

fun read_json :: "disk_file \<Rightarrow> exn + json" where
  "read_json Absent = Inl FileNotFoundError"
| "read_json Malformed = Inl JSONDecodeError"
| "read_json (Holds v) = Inr v"
| "read_json (Unreadable e) = Inl e"

text \<open>
  The \<^verbatim>\<open>try\<close> block of \<^verbatim>\<open>open_keyring_fn\<close>: only \<^verbatim>\<open>JSONDecodeError\<close> and
  \<^verbatim>\<open>FileNotFoundError\<close> are caught, every other exception leaves the function.
\<close>

definition load_keyring :: "world \<Rightarrow> exn + json" where
  "load_keyring w =
     (case read_json (keyring_file w) of
        Inl e \<Rightarrow> if e = JSONDecodeError \<or> e = FileNotFoundError then Inr (JObj []) else Inl e
      | Inr v \<Rightarrow> Inr v)"

text \<open>
  The decorator \<^verbatim>\<open>open_keyring(write)\<close>. It first runs
  \<^verbatim>\<open>subprocess.run('mkdir -p ' + DATA_DIR, shell=True)\<close>, whose exit status is
  ignored; \<open>data_dir\<close> is the value of \<^verbatim>\<open>DATA_DIR\<close>. The call
  \<^verbatim>\<open>fn(*args, **kwargs, keyring=keyring)\<close> raises a \<^verbatim>\<open>TypeError\<close> when \<^verbatim>\<open>kwargs\<close>
  already has the key \<^verbatim>\<open>keyring\<close>.
\<close>

definition mkdir_data_dir :: "world \<Rightarrow> world" where
  "mkdir_data_dir w = emit (Shell [Lit (''mkdir -p '' @ data_dir w)]) w"

definition open_keyring :: "bool \<Rightarrow> pyfun \<Rightarrow> pyfun" where
  "open_keyring write fn args kwargs w =
     (let w1 = mkdir_data_dir w in
      case load_keyring w1 of
        Inl e \<Rightarrow> (Inl e, w1)
      | Inr keyring \<Rightarrow>
          if ''keyring'' \<in> set (map fst kwargs)
          then (Inl (TypeError (Multiple_values ''keyring'')), w1)
          else (case fn args (kwargs @ [(''keyring'', keyring)]) w1 of
                  (Inl e, w2) \<Rightarrow> (Inl e, w2)
                | (Inr result, w2) \<Rightarrow>
                    if write then save_keyring result w2 else (Inr result, w2)))"

section \<open>The guards\<close>

text \<open>\<^verbatim>\<open>required_argument_count(min_args)\<close>: a bare \<^verbatim>\<open>return\<close> gives \<^verbatim>\<open>None\<close>.\<close>

definition count_message :: "nat \<Rightarrow> piece list" where
  "count_message min_args =
     [Lit ''This action requires '', Str (JInt (int min_args)), Lit '' arguments!'']"

definition required_argument_count :: "nat \<Rightarrow> pyfun \<Rightarrow> pyfun" where
  "required_argument_count min_args fn args kwargs w =
     (if length args < min_args then (Inr JNull, emit (Print (count_message min_args)) w)
      else fn args kwargs w)"

text \<open>
  \<^verbatim>\<open>validate_label(exists)\<close>, whose inner function is
  \<^verbatim>\<open>validate_label_fn(label, *args, keyring, **kwargs)\<close>: \<^verbatim>\<open>label\<close> is the first
  positional argument (or the keyword of that name when there is none) and \<^verbatim>\<open>keyring\<close>
  is a keyword.
\<close>

definition label_message :: "bool \<Rightarrow> json \<Rightarrow> piece list" where
  "label_message exists label =
     (if exists then [Str label, Lit '' is not a valid label!'']
      else [Lit ''The label '', Str label, Lit '' is already registered!''])"

definition validate_label_fn :: "bool \<Rightarrow> pyfun \<Rightarrow> json \<Rightarrow> json list \<Rightarrow> kwargs \<Rightarrow> json comp" where
  "validate_label_fn exists fn label args kwargs w =
     (case map_of kwargs ''keyring'' of
        None \<Rightarrow> (Inl (TypeError (Missing_arguments [''keyring''])), w)
      | Some keyring \<Rightarrow>
          (case label of
             JStr s \<Rightarrow>
               (case py_contains keyring s of
                  Inl e \<Rightarrow> (Inl e, w)
                | Inr does_exist \<Rightarrow>
                    if does_exist = exists
                    then fn (label # args)
                           ((''keyring'', keyring)
                            # filter (\<lambda>p. fst p \<noteq> ''keyring'' \<and> fst p \<noteq> ''label'') kwargs) w
                    else (Inr keyring, emit (Print (label_message exists label)) w))
           | _ \<Rightarrow> (Inl Unmodelled, w)))"

definition validate_label :: "bool \<Rightarrow> pyfun \<Rightarrow> pyfun" where
  "validate_label exists fn args kwargs w =
     (case args of
        [] \<Rightarrow>
          (case map_of kwargs ''label'' of
             None \<Rightarrow> (Inl (TypeError (Missing_arguments [''label''])), w)
           | Some label \<Rightarrow> validate_label_fn exists fn label [] kwargs w)
      | label # rest \<Rightarrow>
          if ''label'' \<in> set (map fst kwargs)
          then (Inl (TypeError (Multiple_values ''label'')), w)
          else validate_label_fn exists fn label rest kwargs w)"

section \<open>The commands\<close>

text \<open>
  A plain \<^verbatim>\<open>def f(p1, ..., pn)\<close>: the arguments are bound to the parameters and the
  body runs on the bound values.
\<close>

definition def_fn :: "string list \<Rightarrow> (json list \<Rightarrow> json comp) \<Rightarrow> pyfun" where
  "def_fn params body args kwargs w =
     (case bind_params params args kwargs of
        Inl e \<Rightarrow> (Inl e, w)
      | Inr vs \<Rightarrow> body vs w)"

text \<open>\<^verbatim>\<open>print_version(*_args)\<close>\<close>

definition print_version :: pyfun where
  "print_version args kwargs w =
     (case kwargs of
        [] \<Rightarrow> (Inr JNull, emit (Print [Lit ''0.2.0'']) w)
      | kv # kws \<Rightarrow> (Inl (TypeError (Unexpected_keyword (fst kv))), w))"

text \<open>\<^verbatim>\<open>list_keys(keyring)\<close>, under \<^verbatim>\<open>open_keyring(write=False)\<close>\<close>

fun list_keys_body :: "json list \<Rightarrow> json comp" where
  "list_keys_body [keyring] w =
     (let w1 = emit (Print [Lit (''LABEL'' @ [CHR 0x09] @ ''ADDRESS'')]) w in
      case py_items keyring of
        Inl e \<Rightarrow> (Inl e, w1)
      | Inr kvs \<Rightarrow>
          (Inr keyring,
           fold (\<lambda>kv. emit (Print [Str (JStr (fst kv)), Lit [CHR 0x09], Str (snd kv)])) kvs w1))"
| "list_keys_body vs w = (Inl Unmodelled, w)"

definition list_keys :: pyfun where
  "list_keys = open_keyring False (def_fn [''keyring''] list_keys_body)"

text \<open>\<^verbatim>\<open>add_key(label, addr, keyring)\<close>\<close>

fun add_key_body :: "json list \<Rightarrow> json comp" where
  "add_key_body [JStr label, addr, keyring] w =
     (case py_setitem keyring label addr of
        Inl e \<Rightarrow> (Inl e, w)
      | Inr keyring' \<Rightarrow> (Inr keyring', w))"
| "add_key_body vs w = (Inl Unmodelled, w)"

definition add_key :: pyfun where
  "add_key =
     open_keyring True
       (validate_label False
         (required_argument_count 2
           (def_fn [''label'', ''addr'', ''keyring''] add_key_body)))"

text \<open>\<^verbatim>\<open>remove_key(label, keyring)\<close>\<close>

fun remove_key_body :: "json list \<Rightarrow> json comp" where
  "remove_key_body [JStr label, keyring] w =
     (case py_pop keyring label of
        Inl e \<Rightarrow> (Inl e, w)
      | Inr keyring' \<Rightarrow> (Inr keyring', w))"
| "remove_key_body vs w = (Inl Unmodelled, w)"

definition remove_key :: pyfun where
  "remove_key =
     open_keyring True
       (validate_label True
         (required_argument_count 1
           (def_fn [''label'', ''keyring''] remove_key_body)))"

text \<open>
  \<^verbatim>\<open>rename_key(label, new_label, keyring)\<close>. The names \<^verbatim>\<open>add_key\<close> and \<^verbatim>\<open>remove_key\<close>
  in its body are the decorated functions, called with the keyword \<^verbatim>\<open>keyring\<close>.
\<close>

fun rename_key_body :: "json list \<Rightarrow> json comp" where
  "rename_key_body [JStr label, new_label, keyring] w =
     (case py_getitem keyring label of
        Inl e \<Rightarrow> (Inl e, w)
      | Inr v \<Rightarrow>
          (case add_key [new_label, v] [(''keyring'', keyring)] w of
             (Inl e, w1) \<Rightarrow> (Inl e, w1)
           | (Inr r1, w1) \<Rightarrow>
               if \<not> py_truthy r1 then (Inr keyring, w1)
               else (case remove_key [JStr label] [(''keyring'', keyring)] w1 of
                       (Inl e, w2) \<Rightarrow> (Inl e, w2)
                     | (Inr r2, w2) \<Rightarrow> (Inr keyring, w2))))"
| "rename_key_body vs w = (Inl Unmodelled, w)"

definition rename_key :: pyfun where
  "rename_key =
     open_keyring True
       (required_argument_count 2
         (def_fn [''label'', ''new_label'', ''keyring''] rename_key_body))"

text \<open>\<^verbatim>\<open>ssh_connect(label, keyring)\<close>\<close>

fun ssh_connect_body :: "json list \<Rightarrow> json comp" where
  "ssh_connect_body [JStr label, keyring] w =
     (case py_getitem keyring label of
        Inl e \<Rightarrow> (Inl e, w)
      | Inr v \<Rightarrow>
          (Inr keyring,
           emit (Print [Lit ''ssh session finished''])
             (emit (Shell [Lit ''ssh '', Str v])
               (emit (Print [Lit ''Connecting to '', Str v, Lit ''...'']) w))))"
| "ssh_connect_body vs w = (Inl Unmodelled, w)"

definition ssh_connect :: pyfun where
  "ssh_connect =
     open_keyring True
       (validate_label True
         (required_argument_count 1
           (def_fn [''label'', ''keyring''] ssh_connect_body)))"

text \<open>\<^verbatim>\<open>ssh_run(label, command, keyring)\<close>\<close>

fun ssh_run_body :: "json list \<Rightarrow> json comp" where
  "ssh_run_body [JStr label, command, keyring] w =
     (case py_getitem keyring label of
        Inl e \<Rightarrow> (Inl e, w)
      | Inr v \<Rightarrow>
          (Inr keyring,
           emit (Print [Lit ''ssh session finished''])
             (emit (Shell [Lit ''ssh -t '', Str v, Lit '' '', Str command])
               (emit (Print [Lit ''Connecting to '', Str v, Lit ''...'']) w))))"
| "ssh_run_body vs w = (Inl Unmodelled, w)"

definition ssh_run :: pyfun where
  "ssh_run =
     open_keyring True
       (validate_label True
         (required_argument_count 2
           (def_fn [''label'', ''command'', ''keyring''] ssh_run_body)))"

text \<open>\<^verbatim>\<open>export_keyring(keyring)\<close>, under \<^verbatim>\<open>open_keyring(write=False)\<close>\<close>

fun export_keyring_body :: "json list \<Rightarrow> json comp" where
  "export_keyring_body [keyring] w = (Inr keyring, emit (Print [Dumps keyring]) w)"
| "export_keyring_body vs w = (Inl Unmodelled, w)"

definition export_keyring :: pyfun where
  "export_keyring = open_keyring False (def_fn [''keyring''] export_keyring_body)"

text \<open>
  \<^verbatim>\<open>import_keyring(keyring, filepath)\<close>: the parameters are in this order in the
  source.
\<close>

fun import_keyring_body :: "json list \<Rightarrow> json comp" where
  "import_keyring_body [keyring, JStr filepath] w =
     (let w1 = emit (Print [Lit ''Merging current keyring and external keyring...'']) w in
      case read_json (other_files w1 filepath) of
        Inl e \<Rightarrow> (Inl e, w1)
      | Inr new_keys \<Rightarrow>
          (case py_merge keyring new_keys of
             Inl e \<Rightarrow> (Inl e, w1)
           | Inr merged \<Rightarrow> (Inr merged, w1)))"
| "import_keyring_body vs w = (Inl Unmodelled, w)"

definition import_keyring :: pyfun where
  "import_keyring =
     open_keyring True
       (required_argument_count 1
         (def_fn [''keyring'', ''filepath''] import_keyring_body))"

section \<open>Dispatch\<close>

definition commands :: "string \<Rightarrow> pyfun option" where
  "commands name =
     (if name = ''version'' then Some print_version
      else if name = ''list'' then Some list_keys
      else if name = ''add'' then Some add_key
      else if name = ''rename'' then Some rename_key
      else if name = ''remove'' then Some remove_key
      else if name = ''connect'' then Some ssh_connect
      else if name = ''export'' then Some export_keyring
      else if name = ''import'' then Some import_keyring
      else if name = ''run'' then Some ssh_run
      else None)"

definition print_usage :: "world \<Rightarrow> world" where
  "print_usage w =
     fold (\<lambda>line. emit (Print line))
       [[Lit ''USAGE: sw COMMAND''], [], [Lit ''Possible commands:''], [],
        [Lit ''sw version''], [Lit ''sw list''],
        [Lit ''sw add       LABEL   ADDR''],
        [Lit ''sw rename    LABEL   NEWLABEL''],
        [Lit ''sw remove    LABEL''],
        [Lit ''sw connect   LABEL''],
        [Lit ''sw run       LABEL   COMMAND''],
        [Lit ''sw export''],
        [Lit ''sw import    FILE'']] w"

text \<open>
  \<^verbatim>\<open>main()\<close> on \<^verbatim>\<open>sys.argv\<close>: the arguments after the command name are passed as
  positional strings, with no keyword; \<^verbatim>\<open>exit()\<close> raises \<^verbatim>\<open>SystemExit\<close>.
\<close>

fun main :: "string list \<Rightarrow> json comp" where
  "main [] w = (Inl IndexError, w)"
| "main [prog] w = (Inl SystemExit, print_usage w)"
| "main (prog # command # args) w =
     (case commands command of
        None \<Rightarrow> (Inl SystemExit, print_usage w)
      | Some f \<Rightarrow>
          (case f (map JStr args) [] w of
             (Inl e, w1) \<Rightarrow> (Inl e, w1)
           | (Inr r, w1) \<Rightarrow> (Inr JNull, w1)))"

section \<open>A concrete world\<close>

text \<open>
  The world in which the concrete runs below start: the keyring file is in the given
  state and can be written, no other file exists and nothing has been printed.
\<close>

definition fresh_world :: "disk_file \<Rightarrow> world" where
  "fresh_world f =
     \<lparr>data_dir = ''/home/user/.sw'', keyring_file = f, writable = True,
      write_error = PermissionError,
      other_files = (\<lambda>p. Absent), out = []\<rparr>"

section \<open>Properties\<close>

subsection \<open>Auxiliary facts\<close>

lemma load_keyring_emit: "load_keyring (emit e w) = load_keyring w"
  by (simp add: load_keyring_def emit_def)

lemma load_keyring_mkdir: "load_keyring (mkdir_data_dir w) = load_keyring w"
  by (simp add: mkdir_data_dir_def load_keyring_emit)

lemma writable_emit: "writable (emit e w) = writable w"
  by (simp add: emit_def)

lemma writable_mkdir: "writable (mkdir_data_dir w) = writable w"
  by (simp add: mkdir_data_dir_def writable_emit)

lemma open_keyring_cli:
  assumes "load_keyring w = Inr k"
  shows "open_keyring write fn args [] w =
     (case fn args [(''keyring'', k)] (mkdir_data_dir w) of
        (Inl e, w2) \<Rightarrow> (Inl e, w2)
      | (Inr result, w2) \<Rightarrow> if write then save_keyring result w2 else (Inr result, w2))"
  using assms by (simp add: open_keyring_def Let_def load_keyring_mkdir)

lemma validate_label_refuses:
  assumes "py_contains k s = Inr d" "d \<noteq> ex"
  shows "validate_label ex fn (JStr s # rest) [(''keyring'', k)] w =
     (Inr k, emit (Print (label_message ex (JStr s))) w)"
  using assms by (simp add: validate_label_def validate_label_fn_def)

lemma validate_label_passes:
  assumes "py_contains k s = Inr ex"
  shows "validate_label ex fn (JStr s # rest) [(''keyring'', k)] w =
     fn (JStr s # rest) [(''keyring'', k)] w"
  using assms by (simp add: validate_label_def validate_label_fn_def)

lemma guarded_label_refused:
  assumes "load_keyring w = Inr k" "py_contains k s = Inr d" "d \<noteq> ex" "writable w"
  shows "open_keyring True (validate_label ex fn) (JStr s # rest) [] w =
     (Inr k, (emit (Print (label_message ex (JStr s))) (mkdir_data_dir w))\<lparr>keyring_file := Holds k\<rparr>)"
  using assms
  by (simp add: open_keyring_cli validate_label_refuses save_keyring_def writable_emit writable_mkdir)

lemma guarded_count_refused:
  assumes "load_keyring w = Inr k" "py_contains k s = Inr ex" "Suc (length rest) < n" "writable w"
  shows "open_keyring True (validate_label ex (required_argument_count n fn)) (JStr s # rest) [] w =
     (Inr JNull, (emit (Print (count_message n)) (mkdir_data_dir w))\<lparr>keyring_file := Holds JNull\<rparr>)"
  using assms
  by (simp add: open_keyring_cli validate_label_passes required_argument_count_def save_keyring_def writable_emit writable_mkdir)

lemma fresh_world_sel:
  "data_dir (fresh_world f) = ''/home/user/.sw''"
  "keyring_file (fresh_world f) = f"
  "writable (fresh_world f)"
  "out (fresh_world f) = []"
  by (simp_all add: fresh_world_def)

lemma load_fresh_holds: "load_keyring (fresh_world (Holds v)) = Inr v"
  by (simp add: load_keyring_def fresh_world_def)

text \<open>
  C6: on a keyring without the label, \<^verbatim>\<open>remove\<close> prints the label followed by
  \<^verbatim>\<open> is not a valid label!\<close> and nothing else, returns the keyring it loaded and
  writes that same keyring back. For the label \<^verbatim>\<open>ghost\<close> the line is exactly
  \<^verbatim>\<open>ghost is not a valid label!\<close>.
\<close>

theorem remove_missing_label:
  assumes "load_keyring w = Inr (JObj kvs)" and "label \<notin> set (map fst kvs)" and "writable w"
  shows "remove_key (JStr label # rest) [] w =
           (Inr (JObj kvs),
            (emit (Print [Str (JStr label), Lit '' is not a valid label!'']) (mkdir_data_dir w))
              \<lparr>keyring_file := Holds (JObj kvs)\<rparr>)
         \<and> render [Str (JStr label), Lit '' is not a valid label!'']
             = Some (label @ '' is not a valid label!'')"
proof -
  have "py_contains (JObj kvs) label = Inr False"
    using assms(2) by simp
  then have "remove_key (JStr label # rest) [] w =
      (Inr (JObj kvs),
       (emit (Print (label_message True (JStr label))) (mkdir_data_dir w))
         \<lparr>keyring_file := Holds (JObj kvs)\<rparr>)"
    unfolding remove_key_def using assms(1,3) by (intro guarded_label_refused) simp_all
  then show ?thesis
    by (simp add: label_message_def)
qed

theorem remove_missing_label_witness:
  "load_keyring (fresh_world (Holds (JObj [(''db'', JStr ''10.0.0.1'')])))
     = Inr (JObj [(''db'', JStr ''10.0.0.1'')])
   \<and> fst (remove_key [JStr ''ghost''] [] (fresh_world (Holds (JObj [(''db'', JStr ''10.0.0.1'')]))))
     = Inr (JObj [(''db'', JStr ''10.0.0.1'')])
   \<and> keyring_file (snd (remove_key [JStr ''ghost''] []
        (fresh_world (Holds (JObj [(''db'', JStr ''10.0.0.1'')])))))
     = Holds (JObj [(''db'', JStr ''10.0.0.1'')])
   \<and> printed (out (snd (remove_key [JStr ''ghost''] []
        (fresh_world (Holds (JObj [(''db'', JStr ''10.0.0.1'')]))))))
     = [Some ''ghost is not a valid label!'']"
  using remove_missing_label [of "fresh_world (Holds (JObj [(''db'', JStr ''10.0.0.1'')]))"
      "[(''db'', JStr ''10.0.0.1'')]" "''ghost''" "[]"]
  by (simp add: load_fresh_holds fresh_world_sel emit_def mkdir_data_dir_def)

text \<open>
  C7, as amended: on a keyring that has the label, \<^verbatim>\<open>add\<close> returns the keyring it
  loaded, writes that same keyring back and prints the line
  \<^verbatim>\<open>The label L is already registered!\<close> for the label \<^verbatim>\<open>L\<close>.
\<close>

theorem add_existing_label:
  assumes "load_keyring w = Inr (JObj kvs)" and "label \<in> set (map fst kvs)" and "writable w"
  shows "add_key (JStr label # rest) [] w =
           (Inr (JObj kvs),
            (emit (Print [Lit ''The label '', Str (JStr label), Lit '' is already registered!''])
               (mkdir_data_dir w))
              \<lparr>keyring_file := Holds (JObj kvs)\<rparr>)
         \<and> render [Lit ''The label '', Str (JStr label), Lit '' is already registered!'']
             = Some (''The label '' @ label @ '' is already registered!'')"
proof -
  have "py_contains (JObj kvs) label = Inr True"
    using assms(2) by simp
  then have "add_key (JStr label # rest) [] w =
      (Inr (JObj kvs),
       (emit (Print (label_message False (JStr label))) (mkdir_data_dir w))
         \<lparr>keyring_file := Holds (JObj kvs)\<rparr>)"
    unfolding add_key_def using assms(1,3) by (intro guarded_label_refused) simp_all
  then show ?thesis
    by (simp add: label_message_def)
qed

lemma add_key_inserts:
  assumes "load_keyring w = Inr (JObj kvs)" and "label \<notin> set (map fst kvs)" and "writable w"
  shows "add_key [JStr label, addr] [] w =
           (Inr (JObj (kvs @ [(label, addr)])),
            (mkdir_data_dir w)\<lparr>keyring_file := Holds (JObj (kvs @ [(label, addr)]))\<rparr>)"
proof -
  have c: "py_contains (JObj kvs) label = Inr False"
    using assms(2) by simp
  have d: "dict_set kvs label addr = kvs @ [(label, addr)]"
    using assms(2) by (induction kvs) auto
  show ?thesis
    unfolding add_key_def using assms(1,3)
    by (simp add: open_keyring_cli validate_label_passes [OF c] required_argument_count_def
        def_fn_def bind_params_def d save_keyring_def writable_mkdir)
qed

text \<open>
  The run of the claim: \<^verbatim>\<open>add db x\<close> twice, starting without a keyring file.
\<close>

theorem add_twice_witness:
  "fst (add_key [JStr ''db'', JStr ''x''] [] (fresh_world Absent)) = Inr (JObj [(''db'', JStr ''x'')])
   \<and> keyring_file (snd (add_key [JStr ''db'', JStr ''x''] [] (fresh_world Absent)))
       = Holds (JObj [(''db'', JStr ''x'')])
   \<and> fst (add_key [JStr ''db'', JStr ''x''] []
        (snd (add_key [JStr ''db'', JStr ''x''] [] (fresh_world Absent))))
       = Inr (JObj [(''db'', JStr ''x'')])
   \<and> keyring_file (snd (add_key [JStr ''db'', JStr ''x''] []
        (snd (add_key [JStr ''db'', JStr ''x''] [] (fresh_world Absent)))))
       = Holds (JObj [(''db'', JStr ''x'')])
   \<and> printed (out (snd (add_key [JStr ''db'', JStr ''x''] []
        (snd (add_key [JStr ''db'', JStr ''x''] [] (fresh_world Absent))))))
       = [Some ''The label db is already registered!'']"
proof -
  let ?w0 = "fresh_world Absent"
  let ?k = "[(''db'', JStr ''x'')]"
  have l0: "load_keyring ?w0 = Inr (JObj [])"
    by (simp add: load_keyring_def fresh_world_def)
  have first: "add_key [JStr ''db'', JStr ''x''] [] ?w0 =
      (Inr (JObj ?k), (mkdir_data_dir ?w0)\<lparr>keyring_file := Holds (JObj ?k)\<rparr>)"
    using add_key_inserts [OF l0, of "''db''" "JStr ''x''"] by (simp add: fresh_world_sel)
  let ?w1 = "(mkdir_data_dir ?w0)\<lparr>keyring_file := Holds (JObj ?k)\<rparr>"
  have l1: "load_keyring ?w1 = Inr (JObj ?k)"
    by (simp add: load_keyring_def)
  have wr: "writable ?w1"
    by (simp add: writable_mkdir fresh_world_sel)
  show ?thesis
    using add_existing_label [OF l1 _ wr, of "''db''" "[JStr ''x'']"]
    by (simp add: first emit_def mkdir_data_dir_def fresh_world_sel)
qed

text \<open>
  The line printed by the second \<^verbatim>\<open>add db x\<close> is not \<^verbatim>\<open>db is already registered!\<close>.
\<close>

theorem add_existing_label_message_counterexample:
  "printed (out (snd (add_key [JStr ''db'', JStr ''x''] []
      (fresh_world (Holds (JObj [(''db'', JStr ''x'')]))))))
    = [Some ''The label db is already registered!'']
   \<and> printed (out (snd (add_key [JStr ''db'', JStr ''x''] []
      (fresh_world (Holds (JObj [(''db'', JStr ''x'')]))))))
    \<noteq> [Some ''db is already registered!'']"
  by (simp add: add_key_def open_keyring_cli [OF load_fresh_holds] validate_label_refuses
      label_message_def save_keyring_def emit_def mkdir_data_dir_def fresh_world_sel)

lemma render_count_message:
  "render (count_message 1) = Some ''This action requires 1 arguments!''"
  "render (count_message 2) = Some ''This action requires 2 arguments!''"
  by code_simp+

text \<open>
  C5: for the guarded commands the label is checked before the number of arguments, and
  the number of arguments before the body runs. When the label check fails, whatever
  the number of arguments, only the label message is printed and the loaded keyring is
  returned and written back; in particular \<^verbatim>\<open>add\<close> with a single argument that is a
  registered label prints the already-registered message, not the argument-count
  message. When the label check passes and an argument is missing, the argument-count
  message is the only line printed.
\<close>

theorem label_check_before_count:
  assumes "load_keyring w = Inr (JObj kvs)" and "writable w"
  shows "(label \<in> set (map fst kvs) \<longrightarrow>
            add_key (JStr label # rest) [] w =
              (Inr (JObj kvs),
               (emit (Print (label_message False (JStr label))) (mkdir_data_dir w))
                 \<lparr>keyring_file := Holds (JObj kvs)\<rparr>))
       \<and> (label \<notin> set (map fst kvs) \<longrightarrow>
            remove_key (JStr label # rest) [] w =
              (Inr (JObj kvs),
               (emit (Print (label_message True (JStr label))) (mkdir_data_dir w))
                 \<lparr>keyring_file := Holds (JObj kvs)\<rparr>)
          \<and> ssh_connect (JStr label # rest) [] w =
              (Inr (JObj kvs),
               (emit (Print (label_message True (JStr label))) (mkdir_data_dir w))
                 \<lparr>keyring_file := Holds (JObj kvs)\<rparr>)
          \<and> ssh_run (JStr label # rest) [] w =
              (Inr (JObj kvs),
               (emit (Print (label_message True (JStr label))) (mkdir_data_dir w))
                 \<lparr>keyring_file := Holds (JObj kvs)\<rparr>))
       \<and> (label \<notin> set (map fst kvs) \<longrightarrow>
            out (snd (add_key [JStr label] [] w))
              = out w @ [Shell [Lit (''mkdir -p '' @ data_dir w)], Print (count_message 2)])
       \<and> (label \<in> set (map fst kvs) \<longrightarrow>
            out (snd (ssh_run [JStr label] [] w))
              = out w @ [Shell [Lit (''mkdir -p '' @ data_dir w)], Print (count_message 2)])"
proof -
  have yes: "py_contains (JObj kvs) label = Inr True" if "label \<in> set (map fst kvs)"
    using that by simp
  have no: "py_contains (JObj kvs) label = Inr False" if "label \<notin> set (map fst kvs)"
    using that by simp
  have a: "add_key (JStr label # rest) [] w =
      (Inr (JObj kvs),
       (emit (Print (label_message False (JStr label))) (mkdir_data_dir w))
         \<lparr>keyring_file := Holds (JObj kvs)\<rparr>)" if "label \<in> set (map fst kvs)"
    unfolding add_key_def using assms yes [OF that] by (intro guarded_label_refused) simp_all
  have r: "remove_key (JStr label # rest) [] w =
      (Inr (JObj kvs),
       (emit (Print (label_message True (JStr label))) (mkdir_data_dir w))
         \<lparr>keyring_file := Holds (JObj kvs)\<rparr>)" if "label \<notin> set (map fst kvs)"
    unfolding remove_key_def using assms no [OF that] by (intro guarded_label_refused) simp_all
  have c: "ssh_connect (JStr label # rest) [] w =
      (Inr (JObj kvs),
       (emit (Print (label_message True (JStr label))) (mkdir_data_dir w))
         \<lparr>keyring_file := Holds (JObj kvs)\<rparr>)" if "label \<notin> set (map fst kvs)"
    unfolding ssh_connect_def using assms no [OF that] by (intro guarded_label_refused) simp_all
  have u: "ssh_run (JStr label # rest) [] w =
      (Inr (JObj kvs),
       (emit (Print (label_message True (JStr label))) (mkdir_data_dir w))
         \<lparr>keyring_file := Holds (JObj kvs)\<rparr>)" if "label \<notin> set (map fst kvs)"
    unfolding ssh_run_def using assms no [OF that] by (intro guarded_label_refused) simp_all
  have ca: "out (snd (add_key [JStr label] [] w))
      = out w @ [Shell [Lit (''mkdir -p '' @ data_dir w)], Print (count_message 2)]"
    if "label \<notin> set (map fst kvs)"
    unfolding add_key_def
    using guarded_count_refused [OF assms(1) no [OF that] _ assms(2), of "[]" 2]
    by (simp add: emit_def mkdir_data_dir_def)
  have cu: "out (snd (ssh_run [JStr label] [] w))
      = out w @ [Shell [Lit (''mkdir -p '' @ data_dir w)], Print (count_message 2)]"
    if "label \<in> set (map fst kvs)"
    unfolding ssh_run_def
    using guarded_count_refused [OF assms(1) yes [OF that] _ assms(2), of "[]" 2]
    by (simp add: emit_def mkdir_data_dir_def)
  from a r c u ca cu show ?thesis by blast
qed

theorem label_check_before_count_witness:
  "load_keyring (fresh_world (Holds (JObj [(''db'', JStr ''10.0.0.1'')])))
     = Inr (JObj [(''db'', JStr ''10.0.0.1'')])
   \<and> fst (add_key [JStr ''db''] [] (fresh_world (Holds (JObj [(''db'', JStr ''10.0.0.1'')]))))
     = Inr (JObj [(''db'', JStr ''10.0.0.1'')])
   \<and> keyring_file (snd (add_key [JStr ''db''] []
        (fresh_world (Holds (JObj [(''db'', JStr ''10.0.0.1'')])))))
     = Holds (JObj [(''db'', JStr ''10.0.0.1'')])
   \<and> printed (out (snd (add_key [JStr ''db''] []
        (fresh_world (Holds (JObj [(''db'', JStr ''10.0.0.1'')]))))))
     = [Some ''The label db is already registered!'']
   \<and> printed (out (snd (remove_key [JStr ''web''] []
        (fresh_world (Holds (JObj [(''db'', JStr ''10.0.0.1'')]))))))
     = [Some ''web is not a valid label!'']
   \<and> printed (out (snd (ssh_run [JStr ''web''] []
        (fresh_world (Holds (JObj [(''db'', JStr ''10.0.0.1'')]))))))
     = [Some ''web is not a valid label!'']
   \<and> printed (out (snd (ssh_run [JStr ''db''] []
        (fresh_world (Holds (JObj [(''db'', JStr ''10.0.0.1'')]))))))
     = [Some ''This action requires 2 arguments!'']"
  using label_check_before_count [of "fresh_world (Holds (JObj [(''db'', JStr ''10.0.0.1'')]))"
      "[(''db'', JStr ''10.0.0.1'')]" "''db''" "[]"]
    label_check_before_count [of "fresh_world (Holds (JObj [(''db'', JStr ''10.0.0.1'')]))"
      "[(''db'', JStr ''10.0.0.1'')]" "''web''" "[]"]
  by (simp add: load_fresh_holds fresh_world_sel emit_def mkdir_data_dir_def label_message_def
      render_count_message)

lemma guarded_no_arguments:
  assumes "load_keyring w = Inr k"
  shows "open_keyring True (validate_label ex fn) [] [] w =
     (Inl (TypeError (Missing_arguments [''label''])), mkdir_data_dir w)"
  using assms by (simp add: open_keyring_cli validate_label_def)

text \<open>
  C9: \<^verbatim>\<open>add\<close>, \<^verbatim>\<open>remove\<close>, \<^verbatim>\<open>connect\<close> and \<^verbatim>\<open>run\<close> with no argument
  after the command name raise a \<^verbatim>\<open>TypeError\<close> for the missing positional argument
  \<^verbatim>\<open>label\<close>, whatever keyring was loaded: nothing is printed and the keyring file is
  not written.
\<close>

theorem guarded_commands_without_label:
  assumes "load_keyring w = Inr keyring"
    and "command = ''add'' \<or> command = ''remove'' \<or> command = ''connect'' \<or> command = ''run''"
  shows "main [prog, command] w =
           (Inl (TypeError (Missing_arguments [''label''])), mkdir_data_dir w)
         \<and> printed (out (mkdir_data_dir w)) = printed (out w)
         \<and> keyring_file (mkdir_data_dir w) = keyring_file w"
proof -
  have p: "printed (xs @ [Shell ps]) = printed xs" for xs ps
    by (induction xs rule: printed.induct) simp_all
  have "main [prog, command] w =
      (Inl (TypeError (Missing_arguments [''label''])), mkdir_data_dir w)"
    using assms(2) guarded_no_arguments [OF assms(1)]
    by (auto simp add: commands_def add_key_def remove_key_def ssh_connect_def ssh_run_def)
  then show ?thesis
    by (simp add: mkdir_data_dir_def emit_def p)
qed

theorem guarded_commands_without_label_witness:
  "load_keyring (fresh_world (Holds (JObj [(''db'', JStr ''10.0.0.1'')])))
     = Inr (JObj [(''db'', JStr ''10.0.0.1'')])
   \<and> fst (main [''sw'', ''add''] (fresh_world (Holds (JObj [(''db'', JStr ''10.0.0.1'')]))))
     = Inl (TypeError (Missing_arguments [''label'']))
   \<and> fst (main [''sw'', ''remove''] (fresh_world (Holds (JObj [(''db'', JStr ''10.0.0.1'')]))))
     = Inl (TypeError (Missing_arguments [''label'']))
   \<and> fst (main [''sw'', ''connect''] (fresh_world (Holds (JObj [(''db'', JStr ''10.0.0.1'')]))))
     = Inl (TypeError (Missing_arguments [''label'']))
   \<and> fst (main [''sw'', ''run''] (fresh_world (Holds (JObj [(''db'', JStr ''10.0.0.1'')]))))
     = Inl (TypeError (Missing_arguments [''label'']))
   \<and> printed (out (snd (main [''sw'', ''add'']
        (fresh_world (Holds (JObj [(''db'', JStr ''10.0.0.1'')])))))) = []"
  using guarded_commands_without_label [of "fresh_world (Holds (JObj [(''db'', JStr ''10.0.0.1'')]))"
      "JObj [(''db'', JStr ''10.0.0.1'')]" "''add''" "''sw''"]
    guarded_commands_without_label [of "fresh_world (Holds (JObj [(''db'', JStr ''10.0.0.1'')]))"
      "JObj [(''db'', JStr ''10.0.0.1'')]" "''remove''" "''sw''"]
    guarded_commands_without_label [of "fresh_world (Holds (JObj [(''db'', JStr ''10.0.0.1'')]))"
      "JObj [(''db'', JStr ''10.0.0.1'')]" "''connect''" "''sw''"]
    guarded_commands_without_label [of "fresh_world (Holds (JObj [(''db'', JStr ''10.0.0.1'')]))"
      "JObj [(''db'', JStr ''10.0.0.1'')]" "''run''" "''sw''"]
  by (simp add: load_fresh_holds fresh_world_sel del: main.simps)

text \<open>
  C10: when the label is in the keyring, \<^verbatim>\<open>connect\<close> with the label and \<^verbatim>\<open>run\<close>
  with the label and a command call the SSH client on the label's address, return the
  keyring that was loaded and write that same keyring back.
\<close>

theorem ssh_commands_keep_keyring:
  assumes "load_keyring w = Inr (JObj kvs)" and "label \<in> set (map fst kvs)" and "writable w"
  shows "(\<exists>addr. map_of kvs label = Some addr
          \<and> ssh_connect [JStr label] [] w =
              (Inr (JObj kvs),
               (emit (Print [Lit ''ssh session finished''])
                 (emit (Shell [Lit ''ssh '', Str addr])
                   (emit (Print [Lit ''Connecting to '', Str addr, Lit ''...''])
                     (mkdir_data_dir w))))
                 \<lparr>keyring_file := Holds (JObj kvs)\<rparr>)
          \<and> ssh_run [JStr label, command] [] w =
              (Inr (JObj kvs),
               (emit (Print [Lit ''ssh session finished''])
                 (emit (Shell [Lit ''ssh -t '', Str addr, Lit '' '', Str command])
                   (emit (Print [Lit ''Connecting to '', Str addr, Lit ''...''])
                     (mkdir_data_dir w))))
                 \<lparr>keyring_file := Holds (JObj kvs)\<rparr>))"
proof -
  obtain addr where addr: "map_of kvs label = Some addr"
    using assms(2) by (metis map_of_eq_None_iff not_Some_eq set_map)
  have c: "py_contains (JObj kvs) label = Inr True"
    using assms(2) by simp
  have "ssh_connect [JStr label] [] w =
      (Inr (JObj kvs),
       (emit (Print [Lit ''ssh session finished''])
         (emit (Shell [Lit ''ssh '', Str addr])
           (emit (Print [Lit ''Connecting to '', Str addr, Lit ''...''])
             (mkdir_data_dir w))))
         \<lparr>keyring_file := Holds (JObj kvs)\<rparr>)"
    unfolding ssh_connect_def using assms(1,3) addr
    by (simp add: open_keyring_cli validate_label_passes [OF c] required_argument_count_def
        def_fn_def bind_params_def save_keyring_def writable_mkdir writable_emit)
  moreover have "ssh_run [JStr label, command] [] w =
      (Inr (JObj kvs),
       (emit (Print [Lit ''ssh session finished''])
         (emit (Shell [Lit ''ssh -t '', Str addr, Lit '' '', Str command])
           (emit (Print [Lit ''Connecting to '', Str addr, Lit ''...''])
             (mkdir_data_dir w))))
         \<lparr>keyring_file := Holds (JObj kvs)\<rparr>)"
    unfolding ssh_run_def using assms(1,3) addr
    by (simp add: open_keyring_cli validate_label_passes [OF c] required_argument_count_def
        def_fn_def bind_params_def save_keyring_def writable_mkdir writable_emit)
  ultimately show ?thesis
    using addr by simp
qed

theorem ssh_commands_keep_keyring_witness:
  "load_keyring (fresh_world (Holds (JObj [(''db'', JStr ''10.0.0.1'')])))
     = Inr (JObj [(''db'', JStr ''10.0.0.1'')])
   \<and> fst (ssh_connect [JStr ''db''] [] (fresh_world (Holds (JObj [(''db'', JStr ''10.0.0.1'')]))))
     = Inr (JObj [(''db'', JStr ''10.0.0.1'')])
   \<and> keyring_file (snd (ssh_connect [JStr ''db''] []
        (fresh_world (Holds (JObj [(''db'', JStr ''10.0.0.1'')])))))
     = Holds (JObj [(''db'', JStr ''10.0.0.1'')])
   \<and> out (snd (ssh_connect [JStr ''db''] []
        (fresh_world (Holds (JObj [(''db'', JStr ''10.0.0.1'')])))))
     = [Shell [Lit ''mkdir -p /home/user/.sw''],
        Print [Lit ''Connecting to '', Str (JStr ''10.0.0.1''), Lit ''...''],
        Shell [Lit ''ssh '', Str (JStr ''10.0.0.1'')],
        Print [Lit ''ssh session finished'']]
   \<and> keyring_file (snd (ssh_run [JStr ''db'', JStr ''uptime''] []
        (fresh_world (Holds (JObj [(''db'', JStr ''10.0.0.1'')])))))
     = Holds (JObj [(''db'', JStr ''10.0.0.1'')])
   \<and> out (snd (ssh_run [JStr ''db'', JStr ''uptime''] []
        (fresh_world (Holds (JObj [(''db'', JStr ''10.0.0.1'')])))))
     = [Shell [Lit ''mkdir -p /home/user/.sw''],
        Print [Lit ''Connecting to '', Str (JStr ''10.0.0.1''), Lit ''...''],
        Shell [Lit ''ssh -t '', Str (JStr ''10.0.0.1''), Lit '' '', Str (JStr ''uptime'')],
        Print [Lit ''ssh session finished'']]"
  using ssh_commands_keep_keyring [of "fresh_world (Holds (JObj [(''db'', JStr ''10.0.0.1'')]))"
      "[(''db'', JStr ''10.0.0.1'')]" "''db''" "JStr ''uptime''"]
  by (simp add: load_fresh_holds fresh_world_sel emit_def mkdir_data_dir_def)

text \<open>
  C8: saving the keyring that was just loaded and loading again gives the same keyring,
  and saving it once more changes nothing.
\<close>

theorem save_after_load_round_trip:
  assumes "load_keyring w = Inr keyring" and "writable w"
  shows "save_keyring keyring w = (Inr keyring, w\<lparr>keyring_file := Holds keyring\<rparr>)
         \<and> load_keyring (snd (save_keyring keyring w)) = Inr keyring
         \<and> save_keyring keyring (snd (save_keyring keyring w)) = save_keyring keyring w"
  using assms by (simp add: save_keyring_def load_keyring_def)

theorem save_after_load_round_trip_witness:
  "load_keyring (fresh_world (Holds (JObj [(''x'', JStr ''0''), (''y'', JStr ''2'')])))
     = Inr (JObj [(''x'', JStr ''0''), (''y'', JStr ''2'')])
   \<and> load_keyring (snd (save_keyring (JObj [(''x'', JStr ''0''), (''y'', JStr ''2'')])
        (fresh_world (Holds (JObj [(''x'', JStr ''0''), (''y'', JStr ''2'')])))))
     = Inr (JObj [(''x'', JStr ''0''), (''y'', JStr ''2'')])
   \<and> load_keyring (fresh_world Malformed) = Inr (JObj [])
   \<and> load_keyring (snd (save_keyring (JObj []) (fresh_world Malformed))) = Inr (JObj [])"
  using save_after_load_round_trip [of "fresh_world (Holds (JObj [(''x'', JStr ''0''), (''y'', JStr ''2'')]))"
      "JObj [(''x'', JStr ''0''), (''y'', JStr ''2'')]"]
    save_after_load_round_trip [of "fresh_world Malformed" "JObj []"]
  by (simp add: load_fresh_holds fresh_world_sel) (simp add: load_keyring_def fresh_world_def)

text \<open>
  C4, as amended: loading gives the empty mapping when the keyring file is absent or
  \<^verbatim>\<open>json.loads\<close> rejects its text with \<^verbatim>\<open>JSONDecodeError\<close>, and the value that
  \<^verbatim>\<open>json.loads\<close> returns when it returns one. Every other exception of opening,
  reading or parsing is not caught: loading fails with it, and so does the command that
  loads the keyring, before its function is called.
\<close>

theorem load_keyring_cases:
  "(keyring_file w = Absent \<or> keyring_file w = Malformed \<longrightarrow> load_keyring w = Inr (JObj []))
   \<and> (keyring_file w = Holds v \<longrightarrow> load_keyring w = Inr v)
   \<and> (keyring_file w = Unreadable e \<and> e \<noteq> JSONDecodeError \<and> e \<noteq> FileNotFoundError \<longrightarrow>
        load_keyring w = Inl e
        \<and> open_keyring write fn args kwargs w = (Inl e, mkdir_data_dir w))"
proof -
  have "open_keyring write fn args kwargs w = (Inl e, mkdir_data_dir w)"
    if "load_keyring w = Inl e"
    using that by (simp add: open_keyring_def Let_def load_keyring_mkdir)
  moreover have "load_keyring w = Inl e"
    if "keyring_file w = Unreadable e" and "e \<noteq> JSONDecodeError" and "e \<noteq> FileNotFoundError"
    using that by (simp add: load_keyring_def)
  moreover have "keyring_file w = Absent \<or> keyring_file w = Malformed
      \<longrightarrow> load_keyring w = Inr (JObj [])"
    by (auto simp add: load_keyring_def)
  moreover have "keyring_file w = Holds v \<longrightarrow> load_keyring w = Inr v"
    by (simp add: load_keyring_def)
  ultimately show ?thesis
    by blast
qed

theorem load_keyring_cases_witness:
  "load_keyring (fresh_world Absent) = Inr (JObj [])
   \<and> load_keyring (fresh_world Malformed) = Inr (JObj [])
   \<and> load_keyring (fresh_world (Holds (JObj [(''db'', JStr ''10.0.0.1'')])))
       = Inr (JObj [(''db'', JStr ''10.0.0.1'')])
   \<and> load_keyring (fresh_world (Holds JNull)) = Inr JNull
   \<and> load_keyring (fresh_world (Unreadable PermissionError)) = Inl PermissionError
   \<and> load_keyring (fresh_world (Unreadable IsADirectoryError)) = Inl IsADirectoryError
   \<and> load_keyring (fresh_world (Unreadable UnicodeDecodeError)) = Inl UnicodeDecodeError
   \<and> load_keyring (fresh_world (Unreadable RecursionError)) = Inl RecursionError
   \<and> load_keyring (fresh_world (Unreadable ValueError)) = Inl ValueError
   \<and> list_keys [] [] (fresh_world (Unreadable RecursionError))
       = (Inl RecursionError, mkdir_data_dir (fresh_world (Unreadable RecursionError)))"
  using load_keyring_cases [of "fresh_world Absent"]
    load_keyring_cases [of "fresh_world Malformed"]
    load_keyring_cases [of "fresh_world (Holds (JObj [(''db'', JStr ''10.0.0.1'')]))"
      "JObj [(''db'', JStr ''10.0.0.1'')]"]
    load_keyring_cases [of "fresh_world (Holds JNull)" JNull]
    load_keyring_cases [of "fresh_world (Unreadable PermissionError)" _ PermissionError]
    load_keyring_cases [of "fresh_world (Unreadable IsADirectoryError)" _ IsADirectoryError]
    load_keyring_cases [of "fresh_world (Unreadable UnicodeDecodeError)" _ UnicodeDecodeError]
    load_keyring_cases [of "fresh_world (Unreadable ValueError)" _ ValueError]
    load_keyring_cases [of "fresh_world (Unreadable RecursionError)" _ RecursionError False
      "def_fn [''keyring''] list_keys_body" "[]" "[]"]
  by (simp add: fresh_world_sel list_keys_def)

text \<open>
  States of the keyring file in which loading fails the command: bytes that are not
  UTF-8, a file that may not be read, and a valid JSON document that is nested too
  deeply for \<^verbatim>\<open>json.loads\<close>.
\<close>

theorem load_keyring_fails_counterexample:
  "load_keyring (fresh_world (Unreadable UnicodeDecodeError)) = Inl UnicodeDecodeError
   \<and> fst (main [''sw'', ''list''] (fresh_world (Unreadable UnicodeDecodeError)))
       = Inl UnicodeDecodeError
   \<and> load_keyring (fresh_world (Unreadable PermissionError)) = Inl PermissionError
   \<and> fst (main [''sw'', ''list''] (fresh_world (Unreadable PermissionError)))
       = Inl PermissionError
   \<and> load_keyring (fresh_world (Unreadable RecursionError)) = Inl RecursionError
   \<and> fst (main [''sw'', ''list''] (fresh_world (Unreadable RecursionError)))
       = Inl RecursionError"
  by (simp add: load_keyring_def fresh_world_def commands_def list_keys_def open_keyring_def
      mkdir_data_dir_def emit_def)

text \<open>
  C1 does not hold of the code: \<^verbatim>\<open>rename\<close> of a label that is in the keyring never
  completes. Its body calls the decorated \<^verbatim>\<open>add_key\<close> with the keyword \<^verbatim>\<open>keyring\<close>,
  and \<^verbatim>\<open>open_keyring_fn\<close> passes that keyword twice. The keyring file stays as it was.
\<close>

theorem rename_key_raises:
  assumes "load_keyring w = Inr (JObj kvs)" and "label \<in> set (map fst kvs)"
  shows "rename_key [JStr label, JStr new_label] [] w =
           (Inl (TypeError (Multiple_values ''keyring'')), mkdir_data_dir (mkdir_data_dir w))
         \<and> keyring_file (mkdir_data_dir (mkdir_data_dir w)) = keyring_file w"
proof -
  obtain v where v: "map_of kvs label = Some v"
    using assms(2) by (metis map_of_eq_None_iff not_Some_eq set_map)
  have inner: "add_key [JStr new_label, v] [(''keyring'', JObj kvs)] (mkdir_data_dir w) =
      (Inl (TypeError (Multiple_values ''keyring'')), mkdir_data_dir (mkdir_data_dir w))"
    using assms(1)
    by (simp add: add_key_def open_keyring_def Let_def load_keyring_mkdir)
  have "rename_key [JStr label, JStr new_label] [] w =
      (Inl (TypeError (Multiple_values ''keyring'')), mkdir_data_dir (mkdir_data_dir w))"
    unfolding rename_key_def using assms(1) v
    by (simp add: open_keyring_cli required_argument_count_def def_fn_def bind_params_def inner)
  then show ?thesis
    by (simp add: mkdir_data_dir_def emit_def)
qed

theorem rename_key_raises_witness:
  "load_keyring (fresh_world (Holds (JObj [(''a'', JStr ''10.0.0.1'')])))
     = Inr (JObj [(''a'', JStr ''10.0.0.1'')])
   \<and> fst (main [''sw'', ''rename'', ''a'', ''b'']
        (fresh_world (Holds (JObj [(''a'', JStr ''10.0.0.1'')]))))
     = Inl (TypeError (Multiple_values ''keyring''))
   \<and> keyring_file (snd (main [''sw'', ''rename'', ''a'', ''b'']
        (fresh_world (Holds (JObj [(''a'', JStr ''10.0.0.1'')])))))
     = Holds (JObj [(''a'', JStr ''10.0.0.1'')])"
  using rename_key_raises [of "fresh_world (Holds (JObj [(''a'', JStr ''10.0.0.1'')]))"
      "[(''a'', JStr ''10.0.0.1'')]" "''a''" "''b''"]
  by (simp add: load_fresh_holds fresh_world_sel commands_def)

lemma count_refused_unguarded:
  assumes "load_keyring w = Inr k" "length args < n" "writable w"
  shows "open_keyring True (required_argument_count n fn) args [] w =
     (Inr JNull, (emit (Print (count_message n)) (mkdir_data_dir w))\<lparr>keyring_file := Holds JNull\<rparr>)"
  using assms
  by (simp add: open_keyring_cli required_argument_count_def save_keyring_def writable_emit
      writable_mkdir)

text \<open>
  C2 does not hold of the code: when the argument count fails the message is printed,
  but the guard returns \<^verbatim>\<open>None\<close>, and \<^verbatim>\<open>open_keyring_fn\<close> saves it: the keyring
  file holds \<^verbatim>\<open>null\<close> afterwards.
\<close>

theorem count_failure_overwrites_keyring:
  assumes "load_keyring w = Inr (JObj kvs)" and "writable w"
  shows "(label \<notin> set (map fst kvs) \<longrightarrow>
            add_key [JStr label] [] w =
              (Inr JNull,
               (emit (Print (count_message 2)) (mkdir_data_dir w))\<lparr>keyring_file := Holds JNull\<rparr>))
       \<and> (label \<in> set (map fst kvs) \<longrightarrow>
            ssh_run [JStr label] [] w =
              (Inr JNull,
               (emit (Print (count_message 2)) (mkdir_data_dir w))\<lparr>keyring_file := Holds JNull\<rparr>))
       \<and> rename_key [JStr label] [] w =
              (Inr JNull,
               (emit (Print (count_message 2)) (mkdir_data_dir w))\<lparr>keyring_file := Holds JNull\<rparr>)
       \<and> rename_key [] [] w =
              (Inr JNull,
               (emit (Print (count_message 2)) (mkdir_data_dir w))\<lparr>keyring_file := Holds JNull\<rparr>)"
proof -
  have "add_key [JStr label] [] w =
      (Inr JNull,
       (emit (Print (count_message 2)) (mkdir_data_dir w))\<lparr>keyring_file := Holds JNull\<rparr>)"
    if "label \<notin> set (map fst kvs)"
  proof -
    have "py_contains (JObj kvs) label = Inr False"
      using that by simp
    then show ?thesis
      unfolding add_key_def
      by (rule guarded_count_refused [OF assms(1) _ _ assms(2)]) simp
  qed
  moreover have "ssh_run [JStr label] [] w =
      (Inr JNull,
       (emit (Print (count_message 2)) (mkdir_data_dir w))\<lparr>keyring_file := Holds JNull\<rparr>)"
    if "label \<in> set (map fst kvs)"
  proof -
    have "py_contains (JObj kvs) label = Inr True"
      using that by simp
    then show ?thesis
      unfolding ssh_run_def
      by (rule guarded_count_refused [OF assms(1) _ _ assms(2)]) simp
  qed
  moreover have "rename_key args [] w =
      (Inr JNull,
       (emit (Print (count_message 2)) (mkdir_data_dir w))\<lparr>keyring_file := Holds JNull\<rparr>)"
    if "length args < 2" for args
    unfolding rename_key_def using assms that by (intro count_refused_unguarded) simp_all
  ultimately show ?thesis
    by simp
qed

theorem count_failure_overwrites_keyring_witness:
  "load_keyring (fresh_world (Holds (JObj [(''db'', JStr ''10.0.0.1'')])))
     = Inr (JObj [(''db'', JStr ''10.0.0.1'')])
   \<and> printed (out (snd (main [''sw'', ''add'', ''web'']
        (fresh_world (Holds (JObj [(''db'', JStr ''10.0.0.1'')]))))))
     = [Some ''This action requires 2 arguments!'']
   \<and> keyring_file (snd (main [''sw'', ''add'', ''web'']
        (fresh_world (Holds (JObj [(''db'', JStr ''10.0.0.1'')])))))
     = Holds JNull
   \<and> keyring_file (snd (main [''sw'', ''run'', ''db'']
        (fresh_world (Holds (JObj [(''db'', JStr ''10.0.0.1'')])))))
     = Holds JNull
   \<and> keyring_file (snd (main [''sw'', ''rename'', ''db'']
        (fresh_world (Holds (JObj [(''db'', JStr ''10.0.0.1'')])))))
     = Holds JNull
   \<and> fst (main [''sw'', ''connect'', ''db'']
        (snd (main [''sw'', ''add'', ''web'']
          (fresh_world (Holds (JObj [(''db'', JStr ''10.0.0.1'')]))))))
     = Inl (TypeError Not_iterable)"
proof -
  let ?w = "fresh_world (Holds (JObj [(''db'', JStr ''10.0.0.1'')]))"
  let ?w' = "(emit (Print (count_message 2)) (mkdir_data_dir ?w))\<lparr>keyring_file := Holds JNull\<rparr>"
  have l: "load_keyring ?w' = Inr JNull"
    by (simp add: load_keyring_def)
  have next_run: "fst (main [''sw'', ''connect'', ''db''] ?w') = Inl (TypeError Not_iterable)"
    by (simp add: commands_def ssh_connect_def open_keyring_cli [OF l] validate_label_def
        validate_label_fn_def)
  show ?thesis
    using count_failure_overwrites_keyring [of ?w "[(''db'', JStr ''10.0.0.1'')]" "''web''"]
      count_failure_overwrites_keyring [of ?w "[(''db'', JStr ''10.0.0.1'')]" "''db''"]
      next_run
    by (simp add: load_fresh_holds fresh_world_sel commands_def emit_def mkdir_data_dir_def
        render_count_message)
qed

text \<open>
  C3 does not hold of the code: \<^verbatim>\<open>import\<close> with a file path never merges. The path is
  bound to the first parameter, \<^verbatim>\<open>keyring\<close>, which the keyword then names again. The
  keyring file stays as it was.
\<close>

theorem import_keyring_raises:
  assumes "load_keyring w = Inr keyring"
  shows "import_keyring (filepath # rest) [] w =
           (Inl (TypeError (Multiple_values ''keyring'')), mkdir_data_dir w)
         \<and> keyring_file (mkdir_data_dir w) = keyring_file w"
  unfolding import_keyring_def using assms
  by (simp add: open_keyring_cli required_argument_count_def def_fn_def bind_params_def
      mkdir_data_dir_def emit_def)

theorem import_keyring_raises_witness:
  "load_keyring ((fresh_world (Holds (JObj [(''x'', JStr ''0''), (''y'', JStr ''2'')])))
        \<lparr>other_files := (\<lambda>p. Holds (JObj [(''x'', JStr ''1'')]))\<rparr>)
     = Inr (JObj [(''x'', JStr ''0''), (''y'', JStr ''2'')])
   \<and> fst (main [''sw'', ''import'', ''new.json'']
        ((fresh_world (Holds (JObj [(''x'', JStr ''0''), (''y'', JStr ''2'')])))
          \<lparr>other_files := (\<lambda>p. Holds (JObj [(''x'', JStr ''1'')]))\<rparr>))
     = Inl (TypeError (Multiple_values ''keyring''))
   \<and> keyring_file (snd (main [''sw'', ''import'', ''new.json'']
        ((fresh_world (Holds (JObj [(''x'', JStr ''0''), (''y'', JStr ''2'')])))
          \<lparr>other_files := (\<lambda>p. Holds (JObj [(''x'', JStr ''1'')]))\<rparr>)))
     = Holds (JObj [(''x'', JStr ''0''), (''y'', JStr ''2'')])"
  using import_keyring_raises [of "(fresh_world (Holds (JObj [(''x'', JStr ''0''), (''y'', JStr ''2'')])))
        \<lparr>other_files := (\<lambda>p. Holds (JObj [(''x'', JStr ''1'')]))\<rparr>"
      "JObj [(''x'', JStr ''0''), (''y'', JStr ''2'')]" "JStr ''new.json''" "[]"]
  by (simp add: load_keyring_def fresh_world_def commands_def)

text \<open>
  The body of \<^verbatim>\<open>import_keyring\<close>, were it reached, merges with the incoming values
  winning.
\<close>

lemma map_of_dict_set: "map_of (dict_set kvs k v) = (map_of kvs)(k \<mapsto> v)"
  by (induction kvs) auto

lemma map_of_dict_merge: "map_of (dict_merge kvs news) = map_of kvs ++ map_of (rev news)"
  by (induction news arbitrary: kvs) (simp_all add: map_of_dict_set)

lemma import_keyring_body_merges:
  "import_keyring_body [JObj [(''x'', JStr ''0''), (''y'', JStr ''2'')], JStr ''new.json'']
      ((fresh_world Absent)\<lparr>other_files := (\<lambda>p. Holds (JObj [(''x'', JStr ''1'')]))\<rparr>)
   = (Inr (JObj [(''x'', JStr ''1''), (''y'', JStr ''2'')]),
      emit (Print [Lit ''Merging current keyring and external keyring...''])
        ((fresh_world Absent)\<lparr>other_files := (\<lambda>p. Holds (JObj [(''x'', JStr ''1'')]))\<rparr>))"
  by (simp add: emit_def Let_def)

end
